theory Spec2Isabelle
  imports Main "HOL-Library.Sublist" "HOL-Library.Multiset"
begin

section \<open>JavaScript strings\<close>

text \<open>
  A string is a list of code units; the model covers the code units below 256, which
  is where every keyword, pattern and placeholder of the services lives.
  \<^verbatim>\<open>String.prototype.toLowerCase\<close> maps the capitals \<open>A\<close>--\<open>Z\<close> and the Latin-1
  capitals (0xC0--0xDE without the multiplication sign 0xD7) to their small letters and
  leaves every other code unit alone.
\<close>

definition lower_char :: "char \<Rightarrow> char" where
  "lower_char c =
     (let n = (of_char c :: nat)
      in if (65 \<le> n \<and> n \<le> 90) \<or> (192 \<le> n \<and> n \<le> 222 \<and> n \<noteq> 215)
         then char_of (n + 32) else c)"

definition toLowerCase :: "string \<Rightarrow> string" where
  "toLowerCase s = map lower_char s"

text \<open>
  \<^verbatim>\<open>s.includes(k)\<close>: \<open>k\<close> occurs in \<open>s\<close> as a contiguous run of code units. The empty
  string is included in every string.
\<close>

fun js_includes :: "string \<Rightarrow> string \<Rightarrow> bool" where
  "js_includes [] k = (k = [])"
| "js_includes (c # cs) k = (prefix k (c # cs) \<or> js_includes cs k)"

section \<open>Emergency triage (src/services/emergencyTriage.ts)\<close>

definition emergencyKeywords :: "string list" where
  "emergencyKeywords =
     [''pain'', ''broken'', ''emergency'', ''swollen'', ''bleeding'',
      ''urgent'', ''hurt'', ''ache'', ''throbbing'', ''severe'',
      ''unbearable'', ''excruciating'', ''can't sleep'', ''can't eat'']"

definition severe :: "string list" where
  "severe = [''unbearable'', ''excruciating'', ''worst'', ''can't'', ''crying'']"

definition moderate :: "string list" where
  "moderate = [''bad'', ''hurts'', ''painful'', ''aching'', ''throbbing'']"

definition mild :: "string list" where
  "mild = [''slight'', ''little'', ''minor'', ''uncomfortable'']"

record analysis =
  isEmergency :: bool
  painLevel :: int
  symptoms :: "string list"
  urgencyScore :: int

definition analyzeEmergency :: "string \<Rightarrow> analysis" where
  "analyzeEmergency utterance =
     (let lowerUtterance = toLowerCase utterance;
          foundKeywords = filter (\<lambda>keyword. js_includes lowerUtterance keyword) emergencyKeywords
      in if \<not> (length foundKeywords > 0)
         then \<lparr>isEmergency = False, painLevel = 0, symptoms = [], urgencyScore = 0\<rparr>
         else
           let painLevel =
                 (if list_ex (\<lambda>word. js_includes lowerUtterance word) severe then 9
                  else if list_ex (\<lambda>word. js_includes lowerUtterance word) moderate then 6
                  else if list_ex (\<lambda>word. js_includes lowerUtterance word) mild then 3
                  else 5);
               urgencyScore0 = int (length foundKeywords) * 15;
               urgencyScore1 = urgencyScore0 + painLevel * 8;
               urgencyScore2 =
                 (if js_includes lowerUtterance ''since last night''
                     \<or> js_includes lowerUtterance ''all night''
                  then urgencyScore1 + 20 else urgencyScore1);
               urgencyScore3 = min urgencyScore2 100
           in \<lparr>isEmergency = True, painLevel = painLevel, symptoms = foundKeywords,
               urgencyScore = urgencyScore3\<rparr>)"

section \<open>Waitlist fill after a cancellation (src/services/noShowDefender.ts)\<close>

datatype priority = emergency | new_patient | regular

text \<open>\<open>addedAt\<close> is the time value of the \<^verbatim>\<open>Date\<close> (milliseconds, \<^verbatim>\<open>getTime()\<close>).\<close>

record WaitlistPatient =
  id_p :: string
  name :: string
  phone :: string
  preferredTimes :: "string list"
  priority :: priority
  addedAt :: int

record NoShowDefender =
  autoFill :: bool
  waitlist :: "WaitlistPatient list"

record cancellation =
  filled :: bool
  patient :: "WaitlistPatient option"
  revenueRecovered :: int

text \<open>The waitlist the class starts with; \<open>now\<close> is \<^verbatim>\<open>Date.now()\<close> when the class is loaded.\<close>

definition initial_waitlist :: "int \<Rightarrow> WaitlistPatient list" where
  "initial_waitlist now =
     [\<lparr>id_p = ''1'', name = ''Sarah Johnson'', phone = ''555-0123'',
       preferredTimes = [''morning'', ''afternoon''], priority = emergency,
       addedAt = now - 2 * 60 * 60 * 1000\<rparr>,
      \<lparr>id_p = ''2'', name = ''Mike Chen'', phone = ''555-0456'',
       preferredTimes = [''afternoon''], priority = new_patient,
       addedAt = now - 24 * 60 * 60 * 1000\<rparr>,
      \<lparr>id_p = ''3'', name = ''Emma Davis'', phone = ''555-0789'',
       preferredTimes = [''morning''], priority = regular,
       addedAt = now - 3 * 60 * 60 * 1000\<rparr>]"

fun priorityOrder :: "priority \<Rightarrow> int" where
  "priorityOrder emergency = 0"
| "priorityOrder new_patient = 1"
| "priorityOrder regular = 2"

text \<open>The comparator handed to \<^verbatim>\<open>Array.prototype.sort\<close>.\<close>

definition compare_patients :: "WaitlistPatient \<Rightarrow> WaitlistPatient \<Rightarrow> int" where
  "compare_patients a b =
     (let aPriority = priorityOrder (priority a);
          bPriority = priorityOrder (priority b)
      in if aPriority \<noteq> bPriority then aPriority - bPriority
         else addedAt a - addedAt b)"

text \<open>
  The order the comparator stands for, lexicographic on the tier and the time of
  addition: \<open>before a b\<close> is \<open>compare_patients a b \<le> 0\<close>.
\<close>

definition before :: "WaitlistPatient \<Rightarrow> WaitlistPatient \<Rightarrow> bool" where
  "before a b \<longleftrightarrow>
     priorityOrder (priority a) < priorityOrder (priority b)
     \<or> (priorityOrder (priority a) = priorityOrder (priority b) \<and> addedAt a \<le> addedAt b)"

text \<open>
  \<^verbatim>\<open>Array.prototype.sort\<close> is a stable sort: an element goes behind those that the
  comparator does not put after it, and entries that compare equal keep their order.
  Insertion from the right computes that order.
\<close>

fun insert_sorted :: "('a \<Rightarrow> 'a \<Rightarrow> int) \<Rightarrow> 'a \<Rightarrow> 'a list \<Rightarrow> 'a list" where
  "insert_sorted cmp x [] = [x]"
| "insert_sorted cmp x (y # ys) =
     (if cmp x y \<le> 0 then x # y # ys else y # insert_sorted cmp x ys)"

fun js_sort :: "('a \<Rightarrow> 'a \<Rightarrow> int) \<Rightarrow> 'a list \<Rightarrow> 'a list" where
  "js_sort cmp [] = []"
| "js_sort cmp (x # xs) = insert_sorted cmp x (js_sort cmp xs)"

text \<open>
  \<^verbatim>\<open>calculateRevenueRecovered\<close>: the first slot type, in the order of the table, that the
  lower-cased slot description contains.
\<close>

definition slotValues :: "(string \<times> int) list" where
  "slotValues = [(''morning'', 380), (''afternoon'', 420), (''evening'', 350), (''emergency'', 580)]"

definition calculateRevenueRecovered :: "string \<Rightarrow> int" where
  "calculateRevenueRecovered slot =
     (case List.find (\<lambda>(timeType, value). js_includes (toLowerCase slot) timeType) slotValues of
        Some (timeType, value) \<Rightarrow> value
      | None \<Rightarrow> 400)"

text \<open>\<^verbatim>\<open>patient.preferredTimes.some(time => timeSlot.includes(time))\<close>\<close>

definition patientAvailable :: "string \<Rightarrow> WaitlistPatient \<Rightarrow> bool" where
  "patientAvailable appointmentSlot p =
     (let timeSlot = toLowerCase appointmentSlot
      in list_ex (\<lambda>time. js_includes timeSlot time) (preferredTimes p))"

text \<open>
  \<^verbatim>\<open>handleCancellation\<close> takes the state of the class and returns the new state with
  the result. The sort is in place, so the waitlist is reordered also when nobody is
  found; the loop returns at the first available patient of the sorted waitlist, after
  removing every entry that carries this patient's id.
\<close>

definition handleCancellation :: "NoShowDefender \<Rightarrow> string \<Rightarrow> NoShowDefender \<times> cancellation" where
  "handleCancellation st appointmentSlot =
     (if \<not> autoFill st
      then (st, \<lparr>filled = False, patient = None, revenueRecovered = 0\<rparr>)
      else
        let sortedWaitlist = js_sort compare_patients (waitlist st);
            st1 = st\<lparr>waitlist := sortedWaitlist\<rparr>
        in case List.find (patientAvailable appointmentSlot) sortedWaitlist of
             Some p \<Rightarrow>
               (st1\<lparr>waitlist := filter (\<lambda>q. id_p q \<noteq> id_p p) (waitlist st1)\<rparr>,
                \<lparr>filled = True, patient = Some p,
                  revenueRecovered = calculateRevenueRecovered appointmentSlot\<rparr>)
           | None \<Rightarrow> (st1, \<lparr>filled = False, patient = None, revenueRecovered = 0\<rparr>))"

text \<open>
  \<^verbatim>\<open>addToWaitlist\<close>: the id of the new entry is the clock reading \<^verbatim>\<open>Date.now()\<close> in
  decimal, and the time of addition is the clock reading of \<^verbatim>\<open>new Date()\<close> that follows.
\<close>

fun digits :: "nat \<Rightarrow> string" where
  "digits n =
     (if n < 10 then [''0123456789'' ! n]
      else digits (n div 10) @ [''0123456789'' ! (n mod 10)])"

record waitlist_request =
  req_name :: string
  req_phone :: string
  req_preferredTimes :: "string list"
  req_priority :: priority

definition addToWaitlist :: "nat \<Rightarrow> int \<Rightarrow> NoShowDefender \<Rightarrow> waitlist_request \<Rightarrow> NoShowDefender" where
  "addToWaitlist now added st r =
     st\<lparr>waitlist := waitlist st @
        [\<lparr>id_p = digits now, name = req_name r, phone = req_phone r,
          preferredTimes = req_preferredTimes r, priority = req_priority r,
          addedAt = added\<rparr>]\<rparr>"

section \<open>Regular expressions of the redaction rules\<close>

text \<open>
  Every quantifier of the twelve redaction patterns stands on a single character class,
  so a pattern is a sequence of items: the assertion \<^verbatim>\<open>\b\<close>, or a character class
  repeated between \<open>lo\<close> and \<open>hi\<close> times (\<open>None\<close>: no upper bound), greedily.
\<close>

datatype item = WordBoundary | Rep "char \<Rightarrow> bool" nat "nat option"

definition is_digit :: "char \<Rightarrow> bool" where
  "is_digit c = (let n = (of_char c :: nat) in 48 \<le> n \<and> n \<le> 57)"

definition is_upper :: "char \<Rightarrow> bool" where
  "is_upper c = (let n = (of_char c :: nat) in 65 \<le> n \<and> n \<le> 90)"

definition is_lower :: "char \<Rightarrow> bool" where
  "is_lower c = (let n = (of_char c :: nat) in 97 \<le> n \<and> n \<le> 122)"

text \<open>\<^verbatim>\<open>\w\<close>, the characters between which \<^verbatim>\<open>\b\<close> sees no boundary.\<close>

definition is_word_char :: "char \<Rightarrow> bool" where
  "is_word_char c = (is_upper c \<or> is_lower c \<or> is_digit c \<or> c = CHR ''_'')"

text \<open>\<^verbatim>\<open>\s\<close> below 256: tab, line feed, vertical tab, form feed, carriage return, space
  and the no-break space.\<close>

definition is_space :: "char \<Rightarrow> bool" where
  "is_space c = (let n = (of_char c :: nat) in (9 \<le> n \<and> n \<le> 13) \<or> n = 32 \<or> n = 160)"

definition upper_char :: "char \<Rightarrow> char" where
  "upper_char c =
     (let n = (of_char c :: nat)
      in if (97 \<le> n \<and> n \<le> 122) \<or> (224 \<le> n \<and> n \<le> 254 \<and> n \<noteq> 247)
         then char_of (n - 32) else c)"

text \<open>
  With the flag \<^verbatim>\<open>i\<close> a character matches a class when the class has a member with the
  same canonical (upper-case) form.
\<close>

definition class_matches :: "bool \<Rightarrow> (char \<Rightarrow> bool) \<Rightarrow> char \<Rightarrow> bool" where
  "class_matches ignoreCase cls c =
     (if ignoreCase then cls c \<or> cls (upper_char c) \<or> cls (lower_char c) else cls c)"

fun word_before :: "char option \<Rightarrow> bool" where
  "word_before None = False"
| "word_before (Some c) = is_word_char c"

fun word_at :: "string \<Rightarrow> bool" where
  "word_at [] = False"
| "word_at (c # cs) = is_word_char c"

text \<open>The first alternative, in the order given, that succeeds.\<close>

fun first_success :: "(nat \<Rightarrow> nat option) \<Rightarrow> nat list \<Rightarrow> nat option" where
  "first_success f [] = None"
| "first_success f (k # ks) = (case f k of Some m \<Rightarrow> Some m | None \<Rightarrow> first_success f ks)"

text \<open>
  \<open>match_items ic items prev s\<close>: the backtracking matcher at one position. \<open>prev\<close> is the
  character before the position, \<open>s\<close> the rest of the input; the result is the length
  of the match the engine finds first, if there is one. A repetition takes as many
  characters as it can and gives them back one by one while the rest of the pattern
  fails.
\<close>

primrec match_items :: "bool \<Rightarrow> item list \<Rightarrow> char option \<Rightarrow> string \<Rightarrow> nat option" where
  "match_items ic [] = (\<lambda>prev s. Some 0)"
| "match_items ic (i # is) = (\<lambda>prev s.
     case i of
       WordBoundary \<Rightarrow>
         if word_before prev \<noteq> word_at s then match_items ic is prev s else None
     | Rep cls lo hi \<Rightarrow>
         let avail = length (takeWhile (class_matches ic cls) s);
             most = (case hi of None \<Rightarrow> avail | Some h \<Rightarrow> min h avail)
         in first_success
              (\<lambda>k. map_option (\<lambda>m. k + m)
                     (match_items ic is (if k = 0 then prev else Some (s ! (k - 1))) (drop k s)))
              (rev [lo ..< Suc most]))"

record regexp =
  items :: "item list"
  ignoreCase :: bool

text \<open>
  A global scan (\<^verbatim>\<open>lastIndex\<close> from 0): the input cut into the matches (\<open>Inl\<close>) and the
  characters between them (\<open>Inr\<close>). After a match the scan goes on behind it; an empty
  match is followed by the next character.
\<close>

fun scan :: "regexp \<Rightarrow> char option \<Rightarrow> string \<Rightarrow> (string + char) list" where
  "scan p prev [] =
     (case match_items (ignoreCase p) (items p) prev [] of
        Some m \<Rightarrow> [Inl []]
      | None \<Rightarrow> [])"
| "scan p prev (c # cs) =
     (case match_items (ignoreCase p) (items p) prev (c # cs) of
        None \<Rightarrow> Inr c # scan p (Some c) cs
      | Some 0 \<Rightarrow> Inl [] # Inr c # scan p (Some c) cs
      | Some (Suc k) \<Rightarrow>
          Inl (take (Suc k) (c # cs)) # scan p (Some ((c # cs) ! k)) (drop k cs))"

text \<open>\<^verbatim>\<open>text.match(pattern)\<close> with the flag \<^verbatim>\<open>g\<close>: all matches, or \<^verbatim>\<open>null\<close> when there is none.\<close>

definition js_match :: "regexp \<Rightarrow> string \<Rightarrow> string list option" where
  "js_match p s =
     (let found = concat (map (case_sum (\<lambda>m. [m]) (\<lambda>c. [])) (scan p None s))
      in if found = [] then None else Some found)"

text \<open>
  \<^verbatim>\<open>text.replace(pattern, replacement)\<close> with the flag \<^verbatim>\<open>g\<close>, for a replacement without
  \<^verbatim>\<open>$\<close>, as all the placeholders are.
\<close>

definition js_replace :: "regexp \<Rightarrow> string \<Rightarrow> string \<Rightarrow> string" where
  "js_replace p replacement s =
     concat (map (case_sum (\<lambda>m. replacement) (\<lambda>c. [c])) (scan p None s))"

section \<open>PHI redaction (src/services/hipaaShield.ts)\<close>

text \<open>The pieces the patterns are written with.\<close>

definition Lit :: "char \<Rightarrow> item" where
  "Lit c = Rep (\<lambda>x. x = c) 1 (Some 1)"

definition Times :: "nat \<Rightarrow> (char \<Rightarrow> bool) \<Rightarrow> item" where
  "Times n cls = Rep cls n (Some n)"

definition Opt :: "(char \<Rightarrow> bool) \<Rightarrow> item" where
  "Opt cls = Rep cls 0 (Some 1)"

definition Plus :: "(char \<Rightarrow> bool) \<Rightarrow> item" where
  "Plus cls = Rep cls 1 None"

text \<open>\<^verbatim>\<open>[\s-]\<close>, \<^verbatim>\<open>[\s:]\<close>, \<^verbatim>\<open>[A-Za-z0-9._%+-]\<close>, \<^verbatim>\<open>[A-Za-z0-9.-]\<close> and \<^verbatim>\<open>[A-Z|a-z]\<close>\<close>

definition space_or_dash :: "char \<Rightarrow> bool" where
  "space_or_dash c = (is_space c \<or> c = CHR ''-'')"

definition space_or_colon :: "char \<Rightarrow> bool" where
  "space_or_colon c = (is_space c \<or> c = CHR '':'')"

definition email_local :: "char \<Rightarrow> bool" where
  "email_local c = (is_upper c \<or> is_lower c \<or> is_digit c \<or> c \<in> set ''._%+-'')"

definition email_domain :: "char \<Rightarrow> bool" where
  "email_domain c = (is_upper c \<or> is_lower c \<or> is_digit c \<or> c \<in> set ''.-'')"

definition email_tld :: "char \<Rightarrow> bool" where
  "email_tld c = (is_upper c \<or> c = CHR ''|'' \<or> is_lower c)"

record rule =
  pattern :: regexp
  replace :: string

text \<open>
  The twelve rules, in the order of the source:
  \<^verbatim>\<open>/\b\d{3}-\d{2}-\d{4}\b/g\<close>, \<^verbatim>\<open>/\b\d{9}\b/g\<close>,
  \<^verbatim>\<open>/\b[A-Z]{2}\d{10}\b/g\<close>, \<^verbatim>\<open>/\b[A-Z]{3}\d{9}\b/g\<close>,
  \<^verbatim>\<open>/\b\d{3}-\d{3}-\d{4}\b/g\<close>, \<^verbatim>\<open>/\b\(\d{3}\)\s?\d{3}-\d{4}\b/g\<close>,
  \<^verbatim>\<open>/\b\d{4}[\s-]?\d{4}[\s-]?\d{4}[\s-]?\d{4}\b/g\<close>,
  \<^verbatim>\<open>/\b[A-Za-z0-9._%+-]+@[A-Za-z0-9.-]+\.[A-Z|a-z]{2,}\b/g\<close>,
  \<^verbatim>\<open>/\b\d{1,2}\/\d{1,2}\/\d{4}\b/g\<close>, \<^verbatim>\<open>/\b\d{1,2}-\d{1,2}-\d{4}\b/g\<close>,
  \<^verbatim>\<open>/\bMRN[\s:]?\d+/gi\<close>, \<^verbatim>\<open>/\bMR[\s:]?\d+/gi\<close>.
\<close>

definition redactionRules :: "rule list" where
  "redactionRules =
    [\<comment> \<open>Social Security Numbers\<close>
     \<lparr>pattern = \<lparr>items = [WordBoundary, Times 3 is_digit, Lit CHR ''-'', Times 2 is_digit,
          Lit CHR ''-'', Times 4 is_digit, WordBoundary], ignoreCase = False\<rparr>,
      replace = ''[SSN-REDACTED]''\<rparr>,
     \<lparr>pattern = \<lparr>items = [WordBoundary, Times 9 is_digit, WordBoundary], ignoreCase = False\<rparr>,
      replace = ''[SSN-REDACTED]''\<rparr>,
     \<comment> \<open>Insurance IDs\<close>
     \<lparr>pattern = \<lparr>items = [WordBoundary, Times 2 is_upper, Times 10 is_digit, WordBoundary],
          ignoreCase = False\<rparr>,
      replace = ''[INSURANCE-REDACTED]''\<rparr>,
     \<lparr>pattern = \<lparr>items = [WordBoundary, Times 3 is_upper, Times 9 is_digit, WordBoundary],
          ignoreCase = False\<rparr>,
      replace = ''[INSURANCE-REDACTED]''\<rparr>,
     \<comment> \<open>Phone Numbers\<close>
     \<lparr>pattern = \<lparr>items = [WordBoundary, Times 3 is_digit, Lit CHR ''-'', Times 3 is_digit,
          Lit CHR ''-'', Times 4 is_digit, WordBoundary], ignoreCase = False\<rparr>,
      replace = ''[PHONE-REDACTED]''\<rparr>,
     \<lparr>pattern = \<lparr>items = [WordBoundary, Lit CHR ''('', Times 3 is_digit, Lit CHR '')'',
          Opt is_space, Times 3 is_digit, Lit CHR ''-'', Times 4 is_digit, WordBoundary],
          ignoreCase = False\<rparr>,
      replace = ''[PHONE-REDACTED]''\<rparr>,
     \<comment> \<open>Credit Card Numbers\<close>
     \<lparr>pattern = \<lparr>items = [WordBoundary, Times 4 is_digit, Opt space_or_dash, Times 4 is_digit,
          Opt space_or_dash, Times 4 is_digit, Opt space_or_dash, Times 4 is_digit,
          WordBoundary], ignoreCase = False\<rparr>,
      replace = ''[CARD-REDACTED]''\<rparr>,
     \<comment> \<open>Email Addresses\<close>
     \<lparr>pattern = \<lparr>items = [WordBoundary, Plus email_local, Lit CHR ''@'', Plus email_domain,
          Lit CHR ''.'', Rep email_tld 2 None, WordBoundary], ignoreCase = False\<rparr>,
      replace = ''[EMAIL-REDACTED]''\<rparr>,
     \<comment> \<open>Dates of Birth\<close>
     \<lparr>pattern = \<lparr>items = [WordBoundary, Rep is_digit 1 (Some 2), Lit CHR ''/'',
          Rep is_digit 1 (Some 2), Lit CHR ''/'', Times 4 is_digit, WordBoundary],
          ignoreCase = False\<rparr>,
      replace = ''[DOB-REDACTED]''\<rparr>,
     \<lparr>pattern = \<lparr>items = [WordBoundary, Rep is_digit 1 (Some 2), Lit CHR ''-'',
          Rep is_digit 1 (Some 2), Lit CHR ''-'', Times 4 is_digit, WordBoundary],
          ignoreCase = False\<rparr>,
      replace = ''[DOB-REDACTED]''\<rparr>,
     \<comment> \<open>Medical Record Numbers\<close>
     \<lparr>pattern = \<lparr>items = [WordBoundary, Lit CHR ''M'', Lit CHR ''R'', Lit CHR ''N'',
          Opt space_or_colon, Plus is_digit], ignoreCase = True\<rparr>,
      replace = ''[MRN-REDACTED]''\<rparr>,
     \<lparr>pattern = \<lparr>items = [WordBoundary, Lit CHR ''M'', Lit CHR ''R'',
          Opt space_or_colon, Plus is_digit], ignoreCase = True\<rparr>,
      replace = ''[MRN-REDACTED]''\<rparr>]"

record redaction =
  redactedText :: string
  redactionCount :: nat
  dataTypesFound :: "string list"

record audit_entry =
  timestamp :: int
  action :: string
  dataType :: string
  redacted :: bool
  originalLength :: nat
  redactedLength :: nat

text \<open>The data type named after the placeholder of the rule.\<close>

definition dataType_of :: "string \<Rightarrow> string" where
  "dataType_of replacement =
     (if js_includes replacement ''SSN'' then ''ssn''
      else if js_includes replacement ''INSURANCE'' then ''insurance''
      else if js_includes replacement ''PHONE'' then ''phone''
      else if js_includes replacement ''CARD'' then ''credit_card''
      else if js_includes replacement ''EMAIL'' then ''email''
      else if js_includes replacement ''DOB'' then ''date_of_birth''
      else if js_includes replacement ''MRN'' then ''medical_record''
      else ''unknown'')"

text \<open>
  The body of \<^verbatim>\<open>redactionRules.forEach\<close>. The matches are looked for in the text as it
  came in; the replacement works on the text redacted so far.
\<close>

definition redact_rule :: "string \<Rightarrow> redaction \<Rightarrow> rule \<Rightarrow> redaction" where
  "redact_rule text acc rule =
     (case js_match (pattern rule) text of
        None \<Rightarrow> acc
      | Some matches \<Rightarrow>
          \<lparr>redactedText = js_replace (pattern rule) (replace rule) (redactedText acc),
           redactionCount = redactionCount acc + length matches,
           dataTypesFound =
             (if dataType_of (replace rule) \<in> set (dataTypesFound acc) then dataTypesFound acc
              else dataTypesFound acc @ [dataType_of (replace rule)])\<rparr>)"

fun join :: "string \<Rightarrow> string list \<Rightarrow> string" where
  "join sep [] = []"
| "join sep [x] = x"
| "join sep (x # y # ys) = x @ sep @ join sep (y # ys)"

text \<open>
  \<^verbatim>\<open>redactPHI\<close> takes the clock reading and the audit log, and returns the log with its
  new entry and the result.
\<close>

definition redactPHI :: "int \<Rightarrow> audit_entry list \<Rightarrow> string \<Rightarrow> audit_entry list \<times> redaction" where
  "redactPHI now auditLog text =
     (let r = foldl (redact_rule text)
                \<lparr>redactedText = text, redactionCount = 0, dataTypesFound = []\<rparr> redactionRules
      in (auditLog @
            [\<lparr>timestamp = now, action = ''phi_redaction'',
              dataType = join '', '' (dataTypesFound r), redacted = (redactionCount r > 0),
              originalLength = length text, redactedLength = length (redactedText r)\<rparr>],
          r))"

section \<open>Objects and dates of the JavaScript runtime\<close>

text \<open>
  A property read \<^verbatim>\<open>table[key]\<close> on an object literal finds the literal's own keys and,
  behind them, the members every object inherits from \<^verbatim>\<open>Object.prototype\<close>.
\<close>

definition object_prototype_keys :: "string list" where
  "object_prototype_keys =
     [''constructor'', ''__defineGetter__'', ''__defineSetter__'', ''hasOwnProperty'',
      ''__lookupGetter__'', ''__lookupSetter__'', ''isPrototypeOf'', ''propertyIsEnumerable'',
      ''toString'', ''valueOf'', ''__proto__'', ''toLocaleString'']"

datatype 'a property = Undefined | Own 'a | Inherited

definition get_property :: "(string \<times> 'a) list \<Rightarrow> string \<Rightarrow> 'a property" where
  "get_property table key =
     (case map_of table key of
        Some v \<Rightarrow> Own v
      | None \<Rightarrow> if key \<in> set object_prototype_keys then Inherited else Undefined)"

text \<open>
  A \<^verbatim>\<open>Date\<close> holds a time value: the milliseconds since 1 January 1970 00:00 UTC, or
  \<^verbatim>\<open>NaN\<close> for an invalid date (\<open>None\<close> where a date may be invalid). The functions below
  are those of ECMA-262, section ``Date Objects'', under their names there.
\<close>

definition msPerDay :: int where
  "msPerDay = 86400000"

definition Day :: "int \<Rightarrow> int" where
  "Day t = t div msPerDay"

definition TimeWithinDay :: "int \<Rightarrow> int" where
  "TimeWithinDay t = t mod msPerDay"

definition DaysInYear :: "int \<Rightarrow> int" where
  "DaysInYear y =
     (if y mod 4 \<noteq> 0 then 365
      else if y mod 100 \<noteq> 0 then 366
      else if y mod 400 \<noteq> 0 then 365
      else 366)"

definition DayFromYear :: "int \<Rightarrow> int" where
  "DayFromYear y =
     365 * (y - 1970) + (y - 1969) div 4 - (y - 1901) div 100 + (y - 1601) div 400"

text \<open>
  \<^verbatim>\<open>YearFromTime(t)\<close> is the largest year that begins at or before \<open>t\<close>. The search goes
  up from a year that is not too late: no year has more than 366 days and none has
  fewer than 365.
\<close>

function year_from :: "int \<Rightarrow> int \<Rightarrow> int" where
  "year_from d y = (if DayFromYear (y + 1) \<le> d then year_from d (y + 1) else y)"
  by pat_completeness auto
termination
proof (relation "measure (\<lambda>(d, y). nat (d + 1 - DayFromYear (y + 1)))")
  show "wf (measure (\<lambda>(d, y). nat (d + 1 - DayFromYear (y + 1))))" by simp
next
  fix d y :: int
  assume le: "DayFromYear (y + 1) \<le> d"
  have four: "(y + 1 - 1969) div 4 \<le> (y + 1 - 1969 + 1) div 4"
    by (rule zdiv_mono1) simp_all
  have "(y + 1 - 1901 + 1) div 100 \<le> (y + 1 - 1901 + 100) div 100"
    by (rule zdiv_mono1) simp_all
  also have "(y + 1 - 1901 + 100) div 100 = (y + 1 - 1901) div 100 + 1" by simp
  finally have hundred: "(y + 1 - 1901 + 1) div 100 \<le> (y + 1 - 1901) div 100 + 1" .
  have fourhundred: "(y + 1 - 1601) div 400 \<le> (y + 1 - 1601 + 1) div 400"
    by (rule zdiv_mono1) simp_all
  from four hundred fourhundred have "DayFromYear (y + 1) < DayFromYear (y + 1 + 1)"
    by (simp add: DayFromYear_def algebra_simps)
  with le show "((d, y + 1), (d, y)) \<in> measure (\<lambda>(d, y). nat (d + 1 - DayFromYear (y + 1)))"
    by simp
qed

definition YearFromTime :: "int \<Rightarrow> int" where
  "YearFromTime t =
     (let d = Day t in year_from d (1970 + (if 0 \<le> d then d div 366 else d div 365)))"

definition InLeapYear :: "int \<Rightarrow> int" where
  "InLeapYear t = (if DaysInYear (YearFromTime t) = 366 then 1 else 0)"

definition DayWithinYear :: "int \<Rightarrow> int" where
  "DayWithinYear t = Day t - DayFromYear (YearFromTime t)"

definition MonthFromTime :: "int \<Rightarrow> int" where
  "MonthFromTime t =
     (let d = DayWithinYear t; leap = InLeapYear t
      in if d < 31 then 0
         else if d < 59 + leap then 1
         else if d < 90 + leap then 2
         else if d < 120 + leap then 3
         else if d < 151 + leap then 4
         else if d < 181 + leap then 5
         else if d < 212 + leap then 6
         else if d < 243 + leap then 7
         else if d < 273 + leap then 8
         else if d < 304 + leap then 9
         else if d < 334 + leap then 10
         else 11)"

definition DateFromTime :: "int \<Rightarrow> int" where
  "DateFromTime t =
     (let d = DayWithinYear t; leap = InLeapYear t; m = MonthFromTime t
      in if m = 0 then d + 1
         else if m = 1 then d - 30
         else if m = 2 then d - 58 - leap
         else if m = 3 then d - 89 - leap
         else if m = 4 then d - 119 - leap
         else if m = 5 then d - 150 - leap
         else if m = 6 then d - 180 - leap
         else if m = 7 then d - 211 - leap
         else if m = 8 then d - 242 - leap
         else if m = 9 then d - 272 - leap
         else if m = 10 then d - 303 - leap
         else d - 333 - leap)"

text \<open>
  \<^verbatim>\<open>MakeDay(year, month, date)\<close>: the day number of the first of the month \<open>month mod 12\<close>
  of the year \<open>year + floor(month / 12)\<close>, plus \<open>date - 1\<close>.
\<close>

definition MakeDay :: "int \<Rightarrow> int \<Rightarrow> int \<Rightarrow> int" where
  "MakeDay yr m dt =
     (let ym = yr + m div 12;
          mn = m mod 12;
          leap = (if DaysInYear ym = 366 then 1 else 0)
      in DayFromYear ym
         + [0, 31, 59 + leap, 90 + leap, 120 + leap, 151 + leap, 181 + leap, 212 + leap,
            243 + leap, 273 + leap, 304 + leap, 334 + leap] ! nat mn
         + dt - 1)"

definition MakeDate :: "int \<Rightarrow> int \<Rightarrow> int" where
  "MakeDate day time = day * msPerDay + time"

definition TimeClip :: "int \<Rightarrow> int option" where
  "TimeClip t = (if \<bar>t\<bar> > 8640000000000000 then None else Some t)"

text \<open>
  The local time zone of the runtime: the offset from UTC, in milliseconds, that holds
  at a time value, and the offset that the runtime takes for a local time
  (\<^verbatim>\<open>LocalTime(t) = t + offset\<close>, \<^verbatim>\<open>UTC(t) = t - offset\<close>). Daylight saving makes both
  depend on their argument.
\<close>

record zone =
  offsetAtUTC :: "int \<Rightarrow> int"
  offsetAtLocal :: "int \<Rightarrow> int"

definition LocalTime :: "zone \<Rightarrow> int \<Rightarrow> int" where
  "LocalTime tz t = t + offsetAtUTC tz t"

definition UTC :: "zone \<Rightarrow> int \<Rightarrow> int" where
  "UTC tz t = t - offsetAtLocal tz t"

text \<open>\<^verbatim>\<open>Date.prototype.getMonth\<close> and \<^verbatim>\<open>Date.prototype.setMonth\<close> work on local time.\<close>

definition getMonth :: "zone \<Rightarrow> int \<Rightarrow> int" where
  "getMonth tz t = MonthFromTime (LocalTime tz t)"

definition setMonth :: "zone \<Rightarrow> int \<Rightarrow> int \<Rightarrow> int option" where
  "setMonth tz t m =
     (let lt = LocalTime tz t;
          newDate = MakeDate (MakeDay (YearFromTime lt) m (DateFromTime lt)) (TimeWithinDay lt)
      in TimeClip (UTC tz newDate))"

section \<open>Recall automation (src/services/recallAutomator.ts)\<close>

datatype level = high | medium | low

datatype contact = sms | email | call

datatype recall_status = due | overdue | scheduled | contacted

record RecallConfig =
  interval :: int
  autoBook :: bool
  reminderDays :: "int list"
  cfg_priority :: level

text \<open>The dates are time values; \<open>None\<close> is an invalid \<^verbatim>\<open>Date\<close>.\<close>

record PatientRecall =
  id_r :: string
  patientName :: string
  lastVisit :: "int option"
  procedure :: string
  nextDue :: "int option"
  status :: recall_status
  contactAttempts :: nat
  preferredContact :: contact
  estimatedRevenue :: int

definition recallConfigs :: "(string \<times> RecallConfig) list" where
  "recallConfigs =
     [(''cleaning'',
        \<lparr>interval = 6, autoBook = True, reminderDays = [30, 14, 7, 1], cfg_priority = medium\<rparr>),
      (''crown'',
        \<lparr>interval = 12, autoBook = False, reminderDays = [60, 30, 14], cfg_priority = low\<rparr>),
      (''implant'',
        \<lparr>interval = 24, autoBook = True, reminderDays = [90, 60, 30, 14], cfg_priority = high\<rparr>),
      (''periodontal'',
        \<lparr>interval = 3, autoBook = True, reminderDays = [14, 7, 3, 1], cfg_priority = high\<rparr>),
      (''filling'',
        \<lparr>interval = 24, autoBook = False, reminderDays = [60, 30, 14], cfg_priority = low\<rparr>),
      (''extraction'',
        \<lparr>interval = 1, autoBook = True, reminderDays = [7, 3, 1], cfg_priority = high\<rparr>)]"

text \<open>
  \<^verbatim>\<open>this.recallConfigs[procedure] || {...}\<close>. An inherited member is truthy and is returned
  as it is; it has no \<^verbatim>\<open>interval\<close>, which is the result \<open>None\<close> here.
\<close>

definition getRecallConfig :: "string \<Rightarrow> RecallConfig option" where
  "getRecallConfig proc =
     (case get_property recallConfigs proc of
        Own c \<Rightarrow> Some c
      | Inherited \<Rightarrow> None
      | Undefined \<Rightarrow>
          Some \<lparr>interval = 6, autoBook = False, reminderDays = [30, 14, 7], cfg_priority = medium\<rparr>)"

record recall_data =
  pd_patientName :: string
  pd_procedure :: string
  pd_lastVisit :: "int option"
  pd_preferredContact :: contact
  pd_estimatedRevenue :: "int option"

text \<open>
  \<^verbatim>\<open>addPatientRecall\<close>; \<open>tz\<close> is the time zone of the runtime and \<open>now\<close> is \<^verbatim>\<open>Date.now()\<close>.
  \<^verbatim>\<open>new Date(lastVisit)\<close> copies the time value. Without an interval the month is \<^verbatim>\<open>NaN\<close>
  and the date becomes invalid, as it stays when the last visit is invalid.
  \<^verbatim>\<open>estimatedRevenue || 200\<close> replaces a missing revenue and the revenue 0.
\<close>

definition addPatientRecall :: "zone \<Rightarrow> nat \<Rightarrow> PatientRecall list \<Rightarrow> recall_data \<Rightarrow> PatientRecall list" where
  "addPatientRecall tz now patientRecalls patientData =
     (let config = getRecallConfig (pd_procedure patientData);
          nextDue = (case pd_lastVisit patientData of
                       None \<Rightarrow> None
                     | Some t \<Rightarrow>
                         (case config of
                            Some c \<Rightarrow> setMonth tz t (getMonth tz t + interval c)
                          | None \<Rightarrow> None));
          newRecall =
            \<lparr>id_r = digits now,
             patientName = pd_patientName patientData,
             lastVisit = pd_lastVisit patientData,
             procedure = pd_procedure patientData,
             nextDue = nextDue,
             status = due,
             contactAttempts = 0,
             preferredContact = pd_preferredContact patientData,
             estimatedRevenue =
               (case pd_estimatedRevenue patientData of
                  None \<Rightarrow> 200
                | Some v \<Rightarrow> if v = 0 then 200 else v)\<rparr>
      in patientRecalls @ [newRecall])"

section \<open>Recall intervals of the dental service (src/services/dentalService.ts)\<close>

text \<open>\<^verbatim>\<open>recallSettings.intervals\<close> of src/config/dental.ts.\<close>

definition intervals :: "(string \<times> int) list" where
  "intervals =
     [(''cleaning'', 6), (''perio'', 3), (''implant'', 12), (''crown'', 12),
      (''filling'', 24), (''surgery'', 1), (''consultation'', 12), (''periodontal'', 3)]"

text \<open>\<^verbatim>\<open>String.prototype.trim\<close>: white space and line terminators go, at both ends.\<close>

definition trim :: "string \<Rightarrow> string" where
  "trim s = rev (dropWhile is_space (rev (dropWhile is_space s)))"

datatype severity = sev_low | sev_medium | sev_high

record log_entry =
  log_timestamp :: int
  log_error :: string
  log_context :: string
  log_severity :: severity

record DentalService =
  initialized :: bool
  errorLog :: "log_entry list"
  initializationAttempts :: nat

text \<open>
  \<^verbatim>\<open>initialize\<close>. The objects it validates are the constants of src/config/dental.ts:
  they are there, \<^verbatim>\<open>emergencyKeywords\<close> is an array of strings and
  \<^verbatim>\<open>recallSettings.intervals\<close> is an object, so none of its checks throws.
\<close>

definition initialize :: "DentalService \<Rightarrow> bool \<times> DentalService" where
  "initialize st =
     (if initialized st then (True, st)
      else (True, st\<lparr>initializationAttempts := initializationAttempts st + 1,
                      initialized := True\<rparr>))"

text \<open>\<^verbatim>\<open>logError\<close>: the log keeps its last 100 entries.\<close>

definition logError :: "int \<Rightarrow> DentalService \<Rightarrow> string \<Rightarrow> string \<Rightarrow> severity \<Rightarrow> DentalService" where
  "logError now st context err sev =
     (let errorLog' = errorLog st @
            [\<lparr>log_timestamp = now, log_error = err, log_context = context, log_severity = sev\<rparr>]
      in st\<lparr>errorLog := (if length errorLog' > 100
                           then drop (length errorLog' - 100) errorLog' else errorLog')\<rparr>)"

text \<open>
  The \<^verbatim>\<open>try\<close> block of \<^verbatim>\<open>scheduleRecall\<close>: \<open>Inl\<close> is a thrown \<^verbatim>\<open>Error\<close> with its message,
  \<open>Inr\<close> a returned number. The messages that quote the procedure end where the model
  needs no more of them.
\<close>

definition scheduleRecall_try :: "int \<Rightarrow> DentalService \<Rightarrow> string \<Rightarrow> DentalService \<times> (string + int)" where
  "scheduleRecall_try now st proc =
     (let (ok, st1) = (if initialized st then (True, st) else initialize st)
      in if \<not> ok then (st1, Inl ''Service not properly initialized'')
         else if proc = [] then
           (st1, Inl ''Invalid procedure parameter: must be a non-empty string'')
         else
           let normalizedProcedure = trim (toLowerCase proc)
           in if length normalizedProcedure = 0 then (st1, Inl ''Procedure cannot be empty'')
              else
                case get_property intervals normalizedProcedure of
                  Undefined \<Rightarrow>
                    (logError now st1 ''scheduleRecall'' (''Unknown procedure: '' @ proc) sev_low,
                     Inr 6)
                | Inherited \<Rightarrow> (st1, Inl (''Invalid interval for procedure '' @ proc))
                | Own iv \<Rightarrow>
                    if iv \<le> 0 then (st1, Inl (''Invalid interval for procedure '' @ proc))
                    else (st1, Inr iv))"

text \<open>\<^verbatim>\<open>scheduleRecall\<close>: the \<^verbatim>\<open>catch\<close> block logs the error and returns the safe default.\<close>

definition scheduleRecall :: "int \<Rightarrow> DentalService \<Rightarrow> string \<Rightarrow> DentalService \<times> int" where
  "scheduleRecall now st proc =
     (case scheduleRecall_try now st proc of
        (st1, Inr iv) \<Rightarrow> (st1, iv)
      | (st1, Inl errorMessage) \<Rightarrow>
          (logError now st1 ''scheduleRecall'' errorMessage sev_medium, 6))"

section \<open>Voice session errors (src/hooks/useVapi.ts)\<close>

text \<open>
  The fields of the error object that the handler reads: \<^verbatim>\<open>error.errorMsg\<close>,
  \<^verbatim>\<open>error.error.type\<close>, \<^verbatim>\<open>error.error.msg\<close>, \<^verbatim>\<open>error.type\<close>, \<^verbatim>\<open>error.message\<close> and what
  \<^verbatim>\<open>error.toString()\<close> gives; \<open>None\<close> is a field that is not there.
\<close>

record vapi_error =
  errorMsg :: "string option"
  error_type :: "string option"
  error_msg :: "string option"
  err_type :: "string option"
  message :: "string option"
  to_string :: "string option"

datatype call_status = idle | connecting | connected | ended | error

datatype health = healthy | degraded | failed

text \<open>
  The state the handler works on: the counter \<^verbatim>\<open>reconnectAttemptsRef.current\<close> and the
  React state it sets. A timer is a \<^verbatim>\<open>setTimeout\<close> with its delay in milliseconds.
\<close>

record hook =
  reconnectAttempts :: nat
  callStatus :: call_status
  errorText :: "string option"
  isLoading :: bool
  connectionHealth :: health
  isCallActive :: bool

datatype timer_action = RetryConnection | ResetToIdle | ResetToIdleAndClearError

definition maxReconnectAttempts :: nat where
  "maxReconnectAttempts = 3"

text \<open>\<^verbatim>\<open>a || b\<close> on strings that may be missing: the empty string is falsy too.\<close>

fun or_else :: "string option \<Rightarrow> string option \<Rightarrow> string option" where
  "or_else None b = b"
| "or_else (Some s) b = (if s = [] then b else Some s)"

definition meeting_ended :: "vapi_error \<Rightarrow> bool" where
  "meeting_ended e =
     (errorMsg e = Some ''Meeting has ended''
      \<or> error_type e = Some ''ejected''
      \<or> error_type e = Some ''no-room''
      \<or> error_msg e = Some ''Meeting has ended'')"

definition shouldRetry :: "vapi_error \<Rightarrow> bool" where
  "shouldRetry e =
     (if err_type e = Some ''daily-call-join-error'' then True
      else if err_type e = Some ''start-method-error'' then False
      else True)"

definition errorMessage :: "vapi_error \<Rightarrow> string" where
  "errorMessage e =
     (if err_type e = Some ''daily-call-join-error''
        then ''Failed to join voice session. Please try again.''
      else if err_type e = Some ''start-method-error''
        then ''Failed to start voice assistant. Please check your connection.''
      else case or_else (message e) (or_else (errorMsg e) (to_string e)) of
             Some s \<Rightarrow> if s = [] then ''Unknown VAPI error'' else s
           | None \<Rightarrow> ''Unknown VAPI error'')"

text \<open>
  The body of the handler of the \<^verbatim>\<open>error\<close> event. The counter is a ref, which the
  handler reads as it is now; \<^verbatim>\<open>isCallActive\<close> is a variable of the closure in which the
  handler was created, and \<open>seenActive\<close> is its value there. The result is the new state
  and the timers set.
\<close>

definition error_handler :: "bool \<Rightarrow> hook \<Rightarrow> vapi_error \<Rightarrow> hook \<times> (nat \<times> timer_action) list" where
  "error_handler seenActive st e =
     (if meeting_ended e
      then (st\<lparr>callStatus := ended, isCallActive := False, isLoading := False,
               connectionHealth := healthy\<rparr>,
            [(2000, ResetToIdle)])
      else
        let st1 = st\<lparr>errorText := Some (errorMessage e), callStatus := error,
                      isLoading := False, connectionHealth := failed\<rparr>
        in if shouldRetry e \<and> reconnectAttempts st1 < maxReconnectAttempts \<and> seenActive
           then
             let st2 = st1\<lparr>reconnectAttempts := reconnectAttempts st1 + 1\<rparr>
             in (st2, [(2000 * reconnectAttempts st2, RetryConnection)])
           else if \<not> shouldRetry e then (st1, [(3000, ResetToIdleAndClearError)])
           else (st1, []))"

text \<open>
  The first render of \<^verbatim>\<open>useVapi\<close>: the initial values of \<^verbatim>\<open>useState\<close> and \<^verbatim>\<open>useRef\<close>.
\<close>

definition first_render :: hook where
  "first_render =
     \<lparr>reconnectAttempts = 0, callStatus = idle, errorText = None, isLoading = False,
      connectionHealth = healthy, isCallActive = False\<rparr>"

text \<open>
  The handlers are registered by an effect with an empty list of dependencies, which
  runs after the first render and never again: the handler of \<^verbatim>\<open>error\<close> that the SDK
  calls is the one of the first render, and the \<^verbatim>\<open>isCallActive\<close> of its closure is the
  state of that render.
\<close>

definition on_error :: "hook \<Rightarrow> vapi_error \<Rightarrow> hook \<times> (nat \<times> timer_action) list" where
  "on_error st e = error_handler (isCallActive first_render) st e"

text \<open>The handler of \<^verbatim>\<open>call-start\<close> sets the counter back to 0, as \<^verbatim>\<open>startCall\<close> does.\<close>

definition on_call_start :: "hook \<Rightarrow> hook" where
  "on_call_start st =
     st\<lparr>callStatus := connecting, isCallActive := True, isLoading := False,
        errorText := None, connectionHealth := healthy, reconnectAttempts := 0\<rparr>"

section \<open>Properties of the string operations\<close>

lemma js_includes_sublist: "js_includes s k = sublist k s"
  by (induction s) (simp_all add: sublist_Cons_right)

lemma js_includes_iff: "js_includes s k \<longleftrightarrow> (\<exists>p q. s = p @ k @ q)"
  by (simp add: js_includes_sublist sublist_def)

lemma list_ex_includes:
  "list_ex (js_includes s) ws \<longleftrightarrow> (\<exists>w\<in>set ws. \<exists>p q. s = p @ w @ q)"
  by (auto simp: list_ex_iff js_includes_iff)

section \<open>Properties of the emergency triage\<close>

lemma isEmergency_iff:
  "isEmergency (analyzeEmergency u) \<longleftrightarrow>
     (\<exists>k\<in>set emergencyKeywords. js_includes (toLowerCase u) k)"
  by (simp add: analyzeEmergency_def Let_def filter_empty_conv)

lemma not_emergency_result:
  "\<not> isEmergency (analyzeEmergency u) \<Longrightarrow>
     analyzeEmergency u = \<lparr>isEmergency = False, painLevel = 0, symptoms = [], urgencyScore = 0\<rparr>"
  by (simp add: analyzeEmergency_def Let_def split: if_splits)

text \<open>
  Claim C1. For every utterance, \<open>analyzeEmergency\<close> reports an emergency exactly when
  the lower-cased utterance contains one of the configured emergency keywords as a
  substring; when it contains none, the pain level is 0, the urgency score is 0 and the
  list of symptoms is empty.
\<close>

theorem analyzeEmergency_keyword_iff:
  "(isEmergency (analyzeEmergency u) \<longleftrightarrow>
      (\<exists>k\<in>set emergencyKeywords. \<exists>p q. toLowerCase u = p @ k @ q))
   \<and> (\<not> (\<exists>k\<in>set emergencyKeywords. \<exists>p q. toLowerCase u = p @ k @ q) \<longrightarrow>
        painLevel (analyzeEmergency u) = 0 \<and> urgencyScore (analyzeEmergency u) = 0
        \<and> symptoms (analyzeEmergency u) = [])"
proof -
  have iff: "isEmergency (analyzeEmergency u) \<longleftrightarrow>
      (\<exists>k\<in>set emergencyKeywords. \<exists>p q. toLowerCase u = p @ k @ q)"
    by (simp add: isEmergency_iff js_includes_iff)
  moreover have "painLevel (analyzeEmergency u) = 0 \<and> urgencyScore (analyzeEmergency u) = 0
        \<and> symptoms (analyzeEmergency u) = []"
    if "\<not> (\<exists>k\<in>set emergencyKeywords. \<exists>p q. toLowerCase u = p @ k @ q)"
  proof -
    from that iff have "\<not> isEmergency (analyzeEmergency u)" by simp
    then show ?thesis by (simp add: not_emergency_result)
  qed
  ultimately show ?thesis by blast
qed

lemma hello_no_keyword:
  "list_all (\<lambda>k. \<not> js_includes (toLowerCase ''Hello there'') k) emergencyKeywords"
  by code_simp

theorem analyzeEmergency_keyword_iff_witness:
  "\<not> (\<exists>k\<in>set emergencyKeywords. \<exists>p q. toLowerCase ''Hello there'' = p @ k @ q)
   \<and> \<not> isEmergency (analyzeEmergency ''Hello there'')
   \<and> painLevel (analyzeEmergency ''Hello there'') = 0
   \<and> urgencyScore (analyzeEmergency ''Hello there'') = 0
   \<and> symptoms (analyzeEmergency ''Hello there'') = []"
proof -
  have h: "\<not> (\<exists>k\<in>set emergencyKeywords. \<exists>p q. toLowerCase ''Hello there'' = p @ k @ q)"
    using hello_no_keyword by (simp add: list_all_iff js_includes_iff)
  with analyzeEmergency_keyword_iff [of "''Hello there''"] show ?thesis by blast
qed

text \<open>
  Claim C4, as the code has it. The claim names the pain levels 3, 6 and 9 only; an
  emergency utterance with no pain-level word keeps the initial value 5
  (\<^verbatim>\<open>let painLevel = 5; // default moderate\<close>): ``pain'' is such an utterance.
\<close>

theorem painLevel_default_counterexample:
  "isEmergency (analyzeEmergency ''pain'') \<and> painLevel (analyzeEmergency ''pain'') \<notin> {3, 6, 9}"
  by code_simp

text \<open>
  Claim C4, amended. For every utterance classified as an emergency the pain level is
  one of 3, 5, 6 and 9: it is 9 when the lower-cased utterance contains a severe word,
  otherwise 6 when it contains a moderate word, otherwise 3 when it contains a mild
  word, and the default 5 when it contains none of them; the severe, moderate and mild
  word lists are pairwise disjoint.
\<close>

theorem painLevel_values:
  assumes "isEmergency (analyzeEmergency u)"
  shows "painLevel (analyzeEmergency u) =
           (if \<exists>w\<in>set severe. \<exists>p q. toLowerCase u = p @ w @ q then 9
            else if \<exists>w\<in>set moderate. \<exists>p q. toLowerCase u = p @ w @ q then 6
            else if \<exists>w\<in>set mild. \<exists>p q. toLowerCase u = p @ w @ q then 3
            else 5)
         \<and> painLevel (analyzeEmergency u) \<in> {3, 5, 6, 9}
         \<and> set severe \<inter> set moderate = {} \<and> set severe \<inter> set mild = {}
         \<and> set moderate \<inter> set mild = {}"
proof -
  from assms have "painLevel (analyzeEmergency u) =
           (if list_ex (js_includes (toLowerCase u)) severe then 9
            else if list_ex (js_includes (toLowerCase u)) moderate then 6
            else if list_ex (js_includes (toLowerCase u)) mild then 3
            else 5)"
    by (simp add: analyzeEmergency_def Let_def split: if_splits)
  then have level: "painLevel (analyzeEmergency u) =
           (if \<exists>w\<in>set severe. \<exists>p q. toLowerCase u = p @ w @ q then 9
            else if \<exists>w\<in>set moderate. \<exists>p q. toLowerCase u = p @ w @ q then 6
            else if \<exists>w\<in>set mild. \<exists>p q. toLowerCase u = p @ w @ q then 3
            else 5)"
    by (simp only: list_ex_includes)
  then have "painLevel (analyzeEmergency u) \<in> {3, 5, 6, 9}"
    by (simp split: if_splits)
  moreover have "set severe \<inter> set moderate = {}" "set severe \<inter> set mild = {}"
    "set moderate \<inter> set mild = {}"
    by (simp_all add: severe_def moderate_def mild_def)
  ultimately show ?thesis using level by blast
qed

theorem painLevel_values_witness:
  "isEmergency (analyzeEmergency ''a slight pain'')
   \<and> painLevel (analyzeEmergency ''a slight pain'') = 3"
proof -
  have h: "isEmergency (analyzeEmergency ''a slight pain'')" by code_simp
  have l: "painLevel (analyzeEmergency ''a slight pain'') = 3" by code_simp
  from painLevel_values [OF h] have "painLevel (analyzeEmergency ''a slight pain'') \<in> {3, 5, 6, 9}"
    by blast
  with h l show ?thesis by simp
qed

text \<open>
  Claim C5. For every utterance the urgency score returned by \<open>analyzeEmergency\<close> lies
  between 0 and 100.
\<close>

theorem urgencyScore_clamped:
  "0 \<le> urgencyScore (analyzeEmergency u) \<and> urgencyScore (analyzeEmergency u) \<le> 100"
  by (simp add: analyzeEmergency_def Let_def)

section \<open>Properties of the waitlist fill\<close>

lemma mset_insert_sorted: "mset (insert_sorted cmp x xs) = add_mset x (mset xs)"
  by (induction xs) simp_all

lemma mset_js_sort: "mset (js_sort cmp xs) = mset xs"
  by (induction xs) (simp_all add: mset_insert_sorted)

lemma set_js_sort: "set (js_sort cmp xs) = set xs"
  by (metis mset_js_sort set_mset_mset)

lemma distinct_ids_js_sort:
  "distinct (map f (js_sort cmp xs)) = distinct (map f xs)"
  by (rule mset_eq_imp_distinct_iff) (simp add: mset_js_sort)

lemma compare_patients_le: "compare_patients a b \<le> 0 \<longleftrightarrow> before a b"
  by (auto simp: compare_patients_def before_def Let_def)

lemma before_total: "\<not> before a b \<Longrightarrow> before b a"
  by (auto simp: before_def)

lemma before_trans: "before a b \<Longrightarrow> before b c \<Longrightarrow> before a c"
  by (auto simp: before_def)

lemma sorted_insert_sorted:
  "sorted_wrt before xs \<Longrightarrow> sorted_wrt before (insert_sorted compare_patients x xs)"
proof (induction xs)
  case Nil
  then show ?case by simp
next
  case (Cons y ys)
  show ?case
  proof (cases "before x y")
    case True
    with Cons.prems show ?thesis
      by (auto simp: compare_patients_le intro: before_trans)
  next
    case False
    then have "before y x" by (rule before_total)
    with False Cons show ?thesis
      by (auto simp: compare_patients_le mset_insert_sorted simp flip: set_mset_mset)
  qed
qed

lemma sorted_js_sort: "sorted_wrt before (js_sort compare_patients xs)"
  by (induction xs) (simp_all add: sorted_insert_sorted)

lemma find_sorted_least:
  assumes "sorted_wrt R xs" and "List.find P xs = Some p" and "q \<in> set xs" and "P q"
  shows "q = p \<or> R p q"
  using assms
proof (induction xs)
  case Nil
  then show ?case by simp
next
  case (Cons x xs)
  then show ?case by (auto split: if_splits)
qed

lemma find_Some_mem: "List.find P xs = Some p \<Longrightarrow> p \<in> set xs \<and> P p"
  by (induction xs) (auto split: if_splits)

lemma patientAvailable_iff:
  "patientAvailable slot p \<longleftrightarrow>
     (\<exists>t\<in>set (preferredTimes p). \<exists>a b. toLowerCase slot = a @ t @ b)"
  by (simp add: patientAvailable_def Let_def list_ex_includes)

lemma handleCancellation_filled:
  assumes "handleCancellation st slot = (st', r)" and "filled r"
  shows "\<exists>p. patient r = Some p \<and> autoFill st
           \<and> List.find (patientAvailable slot) (js_sort compare_patients (waitlist st)) = Some p
           \<and> waitlist st' = filter (\<lambda>q. id_p q \<noteq> id_p p) (js_sort compare_patients (waitlist st))"
  using assms by (auto simp: handleCancellation_def Let_def split: if_splits option.splits)

lemma handleCancellation_not_filled:
  assumes "handleCancellation st slot = (st', r)" and "\<not> filled r"
  shows "mset (waitlist st') = mset (waitlist st)"
  using assms
  by (auto simp: handleCancellation_def Let_def mset_js_sort split: if_splits option.splits)

text \<open>
  Claim C3. Whenever \<open>handleCancellation\<close> reports the slot filled, the returned patient
  is an entry of the waitlist, one of its preferred times occurs in the lower-cased slot
  description, no eligible entry has a better tier (emergency before new patient before
  regular), and no eligible entry of the same tier was added earlier.
\<close>

theorem handleCancellation_picks_best:
  assumes "handleCancellation st slot = (st', r)" and "filled r"
  shows "\<exists>p. patient r = Some p \<and> p \<in> set (waitlist st)
           \<and> (\<exists>t\<in>set (preferredTimes p). \<exists>a b. toLowerCase slot = a @ t @ b)
           \<and> (\<forall>q\<in>set (waitlist st).
                 (\<exists>t\<in>set (preferredTimes q). \<exists>a b. toLowerCase slot = a @ t @ b) \<longrightarrow>
                 priorityOrder (priority p) \<le> priorityOrder (priority q)
                 \<and> (priority q = priority p \<longrightarrow> addedAt p \<le> addedAt q))"
proof -
  let ?s = "js_sort compare_patients (waitlist st)"
  from handleCancellation_filled [OF assms] obtain p where
    p: "patient r = Some p" and f: "List.find (patientAvailable slot) ?s = Some p"
    by blast
  from find_Some_mem [OF f] have mem: "p \<in> set (waitlist st)" and av: "patientAvailable slot p"
    by (simp_all add: set_js_sort)
  have best: "priorityOrder (priority p) \<le> priorityOrder (priority q)
                 \<and> (priority q = priority p \<longrightarrow> addedAt p \<le> addedAt q)"
    if "q \<in> set (waitlist st)" and "patientAvailable slot q" for q
  proof -
    from that have "q \<in> set ?s" by (simp add: set_js_sort)
    from find_sorted_least [OF sorted_js_sort f this that(2)] have "q = p \<or> before p q" .
    then show ?thesis by (auto simp: before_def)
  qed
  from p mem av best show ?thesis
    by (simp only: patientAvailable_iff) blast
qed

theorem handleCancellation_picks_best_witness:
  "filled (snd (handleCancellation \<lparr>autoFill = True, waitlist = initial_waitlist 1700000000000\<rparr>
                  ''Tomorrow morning - Cleaning''))
   \<and> (\<exists>p. patient (snd (handleCancellation
                \<lparr>autoFill = True, waitlist = initial_waitlist 1700000000000\<rparr>
                ''Tomorrow morning - Cleaning'')) = Some p
          \<and> name p = ''Sarah Johnson''
          \<and> (\<forall>q\<in>set (initial_waitlist 1700000000000).
                (\<exists>t\<in>set (preferredTimes q). \<exists>a b.
                    toLowerCase ''Tomorrow morning - Cleaning'' = a @ t @ b) \<longrightarrow>
                priorityOrder (priority p) \<le> priorityOrder (priority q)
                \<and> (priority q = priority p \<longrightarrow> addedAt p \<le> addedAt q)))"
proof -
  let ?st = "\<lparr>autoFill = True, waitlist = initial_waitlist 1700000000000\<rparr>"
  let ?res = "handleCancellation ?st ''Tomorrow morning - Cleaning''"
  have run: "?res = (fst ?res, snd ?res)" by simp
  have f: "filled (snd ?res)" by code_simp
  have n: "map_option name (patient (snd ?res)) = Some ''Sarah Johnson''" by code_simp
  from handleCancellation_picks_best [OF run f] n f show ?thesis
    by auto
qed

lemma filter_other_ids:
  "distinct (map f xs) \<Longrightarrow> p \<in> set xs \<Longrightarrow> filter (\<lambda>q. f q \<noteq> f p) xs = remove1 p xs"
proof (induction xs)
  case Nil
  then show ?case by simp
next
  case (Cons x xs)
  show ?case
  proof (cases "x = p")
    case True
    with Cons.prems have "f p \<notin> set (map f xs)" by simp
    then have "\<forall>q\<in>set xs. f q \<noteq> f p" by (metis image_eqI set_map)
    then have "filter (\<lambda>q. f q \<noteq> f p) xs = xs" by (simp add: filter_id_conv)
    with True show ?thesis by simp
  next
    case False
    with Cons show ?thesis by auto
  qed
qed

text \<open>
  Claim C9 at a waitlist with a shared id. Two entries that \<open>addToWaitlist\<close> creates
  at the same clock reading carry the same id. \<open>handleCancellation\<close> books the first
  of them for a morning slot and, under \<^verbatim>\<open>// Remove from waitlist\<close>, filters the waitlist
  by that id: the second entry, which was not booked and is not returned, is gone from
  the waitlist as well, where the claim has exactly the returned patient's entry
  removed.
\<close>

theorem handleCancellation_shared_id_drops_both:
  "addToWaitlist 1700000000000 1700000000000
       (addToWaitlist 1700000000000 1700000000000 \<lparr>autoFill = True, waitlist = []\<rparr>
          \<lparr>req_name = ''Ann'', req_phone = ''555-0001'', req_preferredTimes = [''morning''],
           req_priority = regular\<rparr>)
       \<lparr>req_name = ''Bob'', req_phone = ''555-0002'', req_preferredTimes = [''evening''],
        req_priority = regular\<rparr>
     = \<lparr>autoFill = True, waitlist =
       [\<lparr>id_p = ''1700000000000'', name = ''Ann'', phone = ''555-0001'',
         preferredTimes = [''morning''], priority = regular, addedAt = 1700000000000\<rparr>,
        \<lparr>id_p = ''1700000000000'', name = ''Bob'', phone = ''555-0002'',
         preferredTimes = [''evening''], priority = regular, addedAt = 1700000000000\<rparr>]\<rparr>
   \<and> handleCancellation \<lparr>autoFill = True, waitlist =
       [\<lparr>id_p = ''1700000000000'', name = ''Ann'', phone = ''555-0001'',
         preferredTimes = [''morning''], priority = regular, addedAt = 1700000000000\<rparr>,
        \<lparr>id_p = ''1700000000000'', name = ''Bob'', phone = ''555-0002'',
         preferredTimes = [''evening''], priority = regular, addedAt = 1700000000000\<rparr>]\<rparr>
       ''Tomorrow morning''
     = (\<lparr>autoFill = True, waitlist = []\<rparr>,
        \<lparr>filled = True,
         patient = Some \<lparr>id_p = ''1700000000000'', name = ''Ann'', phone = ''555-0001'',
           preferredTimes = [''morning''], priority = regular, addedAt = 1700000000000\<rparr>,
         revenueRecovered = 380\<rparr>)"
proof -
  have added: "addToWaitlist 1700000000000 1700000000000
       (addToWaitlist 1700000000000 1700000000000 \<lparr>autoFill = True, waitlist = []\<rparr>
          \<lparr>req_name = ''Ann'', req_phone = ''555-0001'', req_preferredTimes = [''morning''],
           req_priority = regular\<rparr>)
       \<lparr>req_name = ''Bob'', req_phone = ''555-0002'', req_preferredTimes = [''evening''],
        req_priority = regular\<rparr>
     = \<lparr>autoFill = True, waitlist =
       [\<lparr>id_p = ''1700000000000'', name = ''Ann'', phone = ''555-0001'',
         preferredTimes = [''morning''], priority = regular, addedAt = 1700000000000\<rparr>,
        \<lparr>id_p = ''1700000000000'', name = ''Bob'', phone = ''555-0002'',
         preferredTimes = [''evening''], priority = regular, addedAt = 1700000000000\<rparr>]\<rparr>"
    by (simp add: addToWaitlist_def)
  have cancelled: "handleCancellation \<lparr>autoFill = True, waitlist =
       [\<lparr>id_p = ''1700000000000'', name = ''Ann'', phone = ''555-0001'',
         preferredTimes = [''morning''], priority = regular, addedAt = 1700000000000\<rparr>,
        \<lparr>id_p = ''1700000000000'', name = ''Bob'', phone = ''555-0002'',
         preferredTimes = [''evening''], priority = regular, addedAt = 1700000000000\<rparr>]\<rparr>
       ''Tomorrow morning''
     = (\<lparr>autoFill = True, waitlist = []\<rparr>,
        \<lparr>filled = True,
         patient = Some \<lparr>id_p = ''1700000000000'', name = ''Ann'', phone = ''555-0001'',
           preferredTimes = [''morning''], priority = regular, addedAt = 1700000000000\<rparr>,
         revenueRecovered = 380\<rparr>)"
    by code_simp
  from added cancelled show ?thesis by (rule conjI)
qed

text \<open>
  On a waitlist whose ids are pairwise distinct the removal takes exactly the entry of
  the returned patient, and a cancellation that fills nothing leaves the entries as
  they are.
\<close>

lemma handleCancellation_distinct_ids:
  assumes "handleCancellation st slot = (st', r)" and "distinct (map id_p (waitlist st))"
  shows "(filled r \<longrightarrow>
            (\<exists>p. patient r = Some p \<and> p \<in> set (waitlist st)
               \<and> mset (waitlist st') = mset (waitlist st) - {#p#}))
         \<and> (\<not> filled r \<longrightarrow> mset (waitlist st') = mset (waitlist st))"
proof -
  let ?s = "js_sort compare_patients (waitlist st)"
  have "\<exists>p. patient r = Some p \<and> p \<in> set (waitlist st)
               \<and> mset (waitlist st') = mset (waitlist st) - {#p#}" if "filled r"
  proof -
    from handleCancellation_filled [OF assms(1) that] obtain p where
      p: "patient r = Some p" and f: "List.find (patientAvailable slot) ?s = Some p"
      and w: "waitlist st' = filter (\<lambda>q. id_p q \<noteq> id_p p) ?s"
      by blast
    from find_Some_mem [OF f] have mem: "p \<in> set ?s" by simp
    from assms(2) have "distinct (map id_p ?s)" by (simp add: distinct_ids_js_sort)
    from filter_other_ids [OF this mem] have "waitlist st' = remove1 p ?s" by (simp add: w)
    then have "mset (waitlist st') = mset (waitlist st) - {#p#}" by (simp add: mset_js_sort)
    with p mem show ?thesis by (simp add: set_js_sort)
  qed
  moreover have "mset (waitlist st') = mset (waitlist st)" if "\<not> filled r"
    using handleCancellation_not_filled [OF assms(1) that] .
  ultimately show ?thesis by blast
qed

section \<open>Properties of the PHI redaction\<close>

lemma redact_phone_number:
  "foldl (redact_rule ''call 555-123-4567'')
     \<lparr>redactedText = ''call 555-123-4567'', redactionCount = 0, dataTypesFound = []\<rparr>
     redactionRules
   = \<lparr>redactedText = ''call [PHONE-REDACTED]'', redactionCount = 1,
      dataTypesFound = [''phone'']\<rparr>"
  by code_simp

text \<open>
  Claim C2. The redaction of ``call 555-123-4567'' is ``call [PHONE-REDACTED]'': it
  contains the placeholder \<^verbatim>\<open>[PHONE-REDACTED]\<close> and no longer contains the digit
  sequence 555-123-4567.
\<close>

theorem redactPHI_phone_number:
  "redactedText (snd (redactPHI now auditLog ''call 555-123-4567'')) = ''call [PHONE-REDACTED]''
   \<and> js_includes (redactedText (snd (redactPHI now auditLog ''call 555-123-4567'')))
        ''[PHONE-REDACTED]''
   \<and> \<not> js_includes (redactedText (snd (redactPHI now auditLog ''call 555-123-4567'')))
        ''555-123-4567''"
proof -
  have red: "redactedText (snd (redactPHI now auditLog ''call 555-123-4567''))
      = ''call [PHONE-REDACTED]''"
    by (simp add: redactPHI_def Let_def redact_phone_number)
  have "js_includes ''call [PHONE-REDACTED]'' ''[PHONE-REDACTED]''" by code_simp
  moreover have "\<not> js_includes ''call [PHONE-REDACTED]'' ''555-123-4567''" by code_simp
  ultimately show ?thesis by (simp only: red) simp
qed

lemma foldl_redact_rule_no_match:
  "\<forall>r\<in>set rs. js_match (pattern r) text = None \<Longrightarrow> foldl (redact_rule text) acc rs = acc"
  by (induction rs arbitrary: acc) (simp_all add: redact_rule_def)

text \<open>
  Claim C10. When none of the redaction patterns has a match in the input, \<open>redactPHI\<close>
  returns the input unchanged, with a redaction count of 0 and no data type found.
\<close>

theorem redactPHI_no_match_identity:
  assumes "\<forall>r\<in>set redactionRules. js_match (pattern r) text = None"
  shows "snd (redactPHI now auditLog text)
           = \<lparr>redactedText = text, redactionCount = 0, dataTypesFound = []\<rparr>"
  using foldl_redact_rule_no_match [OF assms] by (simp add: redactPHI_def Let_def)

lemma hello_no_match:
  "list_all (\<lambda>r. js_match (pattern r) ''hello there'' = None) redactionRules"
  by code_simp

theorem redactPHI_no_match_identity_witness:
  "list_all (\<lambda>r. js_match (pattern r) ''hello there'' = None) redactionRules
   \<and> snd (redactPHI 0 [] ''hello there'')
       = \<lparr>redactedText = ''hello there'', redactionCount = 0, dataTypesFound = []\<rparr>"
proof -
  have h: "\<forall>r\<in>set redactionRules. js_match (pattern r) ''hello there'' = None"
    using hello_no_match by (simp add: list_all_iff)
  from hello_no_match redactPHI_no_match_identity [OF h, of 0 "[]"] show ?thesis by (rule conjI)
qed

section \<open>Properties of the recall automation\<close>

text \<open>
  The time value 1707955200000 is \<^verbatim>\<open>new Date('2024-02-15')\<close>, midnight UTC, as the source
  writes the date of a visit; 1723680000000 is \<^verbatim>\<open>new Date('2024-08-15')\<close>. With an offset
  from UTC of less than a day, the local date of the visit is 14 or 15 February, and
  \<^verbatim>\<open>setMonth\<close> reaches the same local time six months later.
\<close>

lemma local_fields_of_visit:
  assumes "- 86400000 < off" and "off < 86400000"
  shows "MonthFromTime (1707955200000 + off) = 1
    \<and> MakeDate (MakeDay (YearFromTime (1707955200000 + off)) 7 (DateFromTime (1707955200000 + off)))
          (TimeWithinDay (1707955200000 + off)) = 1723680000000 + off"
proof (cases "0 \<le> off")
  case True
  with assms have day: "Day (1707955200000 + off) = 19768"
    unfolding Day_def msPerDay_def by linarith
  have "TimeWithinDay (1707955200000 + off)
      = 1707955200000 + off - Day (1707955200000 + off) * msPerDay"
    unfolding TimeWithinDay_def Day_def by (simp add: minus_div_mult_eq_mod)
  then have time: "TimeWithinDay (1707955200000 + off) = off"
    by (simp add: day msPerDay_def)
  have yr: "YearFromTime (1707955200000 + off) = 2024"
    by (simp add: YearFromTime_def day DayFromYear_def)
  have dwy: "DayWithinYear (1707955200000 + off) = 45"
    by (simp add: DayWithinYear_def day yr DayFromYear_def)
  have leap: "InLeapYear (1707955200000 + off) = 1"
    by (simp add: InLeapYear_def yr DaysInYear_def)
  have mon: "MonthFromTime (1707955200000 + off) = 1"
    by (simp add: MonthFromTime_def dwy leap)
  have dt: "DateFromTime (1707955200000 + off) = 15"
    by (simp add: DateFromTime_def mon dwy leap)
  have "MakeDay 2024 7 15 = 19950"
    by (simp add: MakeDay_def DaysInYear_def DayFromYear_def)
  then show ?thesis
    by (simp add: mon yr dt time MakeDate_def msPerDay_def)
next
  case False
  with assms have day: "Day (1707955200000 + off) = 19767"
    unfolding Day_def msPerDay_def by linarith
  have "TimeWithinDay (1707955200000 + off)
      = 1707955200000 + off - Day (1707955200000 + off) * msPerDay"
    unfolding TimeWithinDay_def Day_def by (simp add: minus_div_mult_eq_mod)
  then have time: "TimeWithinDay (1707955200000 + off) = 86400000 + off"
    by (simp add: day msPerDay_def)
  have yr: "YearFromTime (1707955200000 + off) = 2024"
    by (simp add: YearFromTime_def day DayFromYear_def)
  have dwy: "DayWithinYear (1707955200000 + off) = 44"
    by (simp add: DayWithinYear_def day yr DayFromYear_def)
  have leap: "InLeapYear (1707955200000 + off) = 1"
    by (simp add: InLeapYear_def yr DaysInYear_def)
  have mon: "MonthFromTime (1707955200000 + off) = 1"
    by (simp add: MonthFromTime_def dwy leap)
  have dt: "DateFromTime (1707955200000 + off) = 14"
    by (simp add: DateFromTime_def mon dwy leap)
  have "MakeDay 2024 7 14 = 19949"
    by (simp add: MakeDay_def DaysInYear_def DayFromYear_def)
  then show ?thesis
    by (simp add: mon yr dt time MakeDate_def msPerDay_def)
qed

lemma setMonth_same_offset:
  assumes "offsetAtUTC tz 1707955200000 = off"
    and "offsetAtLocal tz (1723680000000 + off) = off"
    and "- 86400000 < off" and "off < 86400000"
  shows "setMonth tz 1707955200000 (getMonth tz 1707955200000 + 6) = Some 1723680000000"
  using local_fields_of_visit [OF assms(3,4)] assms(1,2)
  by (simp add: setMonth_def getMonth_def LocalTime_def UTC_def TimeClip_def Let_def)

text \<open>
  Claim C6, as the code has it. \<^verbatim>\<open>setMonth\<close> adds the months in local time. In New York
  the visit of \<^verbatim>\<open>new Date('2024-02-15')\<close> is at 19:00 on 14 February, five hours behind
  UTC, and the recall is due at 19:00 on 14 August, four hours behind UTC: that is
  2024-08-14T23:00Z, one hour before \<^verbatim>\<open>new Date('2024-08-15')\<close>. The zone below is New
  York's in 2024, with daylight saving from 10 March to 3 November.
\<close>

theorem addPatientRecall_new_york_counterexample:
  "nextDue (last (addPatientRecall
      \<lparr>offsetAtUTC = (\<lambda>t. if 1710054000000 \<le> t \<and> t < 1730613600000
                           then - 14400000 else - 18000000),
       offsetAtLocal = (\<lambda>t. if 1710039600000 \<le> t \<and> t < 1730599200000
                             then - 14400000 else - 18000000)\<rparr>
      1700000000000 []
      \<lparr>pd_patientName = ''Ann'', pd_procedure = ''cleaning'', pd_lastVisit = Some 1707955200000,
       pd_preferredContact = sms, pd_estimatedRevenue = None\<rparr>))
    = Some 1723676400000
   \<and> nextDue (last (addPatientRecall
      \<lparr>offsetAtUTC = (\<lambda>t. if 1710054000000 \<le> t \<and> t < 1730613600000
                           then - 14400000 else - 18000000),
       offsetAtLocal = (\<lambda>t. if 1710039600000 \<le> t \<and> t < 1730599200000
                             then - 14400000 else - 18000000)\<rparr>
      1700000000000 []
      \<lparr>pd_patientName = ''Ann'', pd_procedure = ''cleaning'', pd_lastVisit = Some 1707955200000,
       pd_preferredContact = sms, pd_estimatedRevenue = None\<rparr>))
    \<noteq> Some 1723680000000"
proof -
  have "local": "MonthFromTime (1707955200000 + (- 18000000)) = 1
    \<and> MakeDate (MakeDay (YearFromTime (1707955200000 + (- 18000000))) 7
          (DateFromTime (1707955200000 + (- 18000000))))
          (TimeWithinDay (1707955200000 + (- 18000000))) = 1723680000000 + (- 18000000)"
    by (rule local_fields_of_visit) simp_all
  then show ?thesis
    by (simp add: addPatientRecall_def getRecallConfig_def get_property_def recallConfigs_def
        setMonth_def getMonth_def LocalTime_def UTC_def TimeClip_def Let_def)
qed

text \<open>
  Claim C6, amended. Adding a recall for the procedure ``cleaning'', whose configured
  interval is 6 months, with the last visit \<^verbatim>\<open>new Date('2024-02-15')\<close> appends a recall
  that is next due at \<^verbatim>\<open>new Date('2024-08-15')\<close>, provided the local time zone is as far
  from UTC on the day the recall is due as it is on the day of the visit (as it is in
  UTC and in every zone without daylight saving).
\<close>

theorem addPatientRecall_cleaning:
  assumes "offsetAtUTC tz 1707955200000 = off"
    and "offsetAtLocal tz (1723680000000 + off) = off"
    and "- 86400000 < off" and "off < 86400000"
  shows "getRecallConfig ''cleaning''
           = Some \<lparr>interval = 6, autoBook = True, reminderDays = [30, 14, 7, 1],
                   cfg_priority = medium\<rparr>
   \<and> butlast (addPatientRecall tz now patientRecalls
        \<lparr>pd_patientName = n, pd_procedure = ''cleaning'', pd_lastVisit = Some 1707955200000,
         pd_preferredContact = c, pd_estimatedRevenue = e\<rparr>) = patientRecalls
   \<and> nextDue (last (addPatientRecall tz now patientRecalls
        \<lparr>pd_patientName = n, pd_procedure = ''cleaning'', pd_lastVisit = Some 1707955200000,
         pd_preferredContact = c, pd_estimatedRevenue = e\<rparr>))
       = Some 1723680000000"
proof -
  have cfg: "getRecallConfig ''cleaning''
           = Some \<lparr>interval = 6, autoBook = True, reminderDays = [30, 14, 7, 1],
                   cfg_priority = medium\<rparr>"
    by (simp add: getRecallConfig_def get_property_def recallConfigs_def)
  from setMonth_same_offset [OF assms] cfg show ?thesis
    by (simp add: addPatientRecall_def Let_def)
qed

theorem addPatientRecall_cleaning_witness:
  "offsetAtUTC \<lparr>offsetAtUTC = (\<lambda>t. - 25200000), offsetAtLocal = (\<lambda>t. - 25200000)\<rparr>
      1707955200000 = - 25200000
   \<and> offsetAtLocal \<lparr>offsetAtUTC = (\<lambda>t. - 25200000), offsetAtLocal = (\<lambda>t. - 25200000)\<rparr>
      (1723680000000 + (- 25200000)) = - 25200000
   \<and> nextDue (last (addPatientRecall
        \<lparr>offsetAtUTC = (\<lambda>t. - 25200000), offsetAtLocal = (\<lambda>t. - 25200000)\<rparr>
        1700000000000 []
        \<lparr>pd_patientName = ''Ann'', pd_procedure = ''cleaning'', pd_lastVisit = Some 1707955200000,
         pd_preferredContact = sms, pd_estimatedRevenue = None\<rparr>))
       = Some 1723680000000"
  using addPatientRecall_cleaning
    [of "\<lparr>offsetAtUTC = (\<lambda>t. - 25200000), offsetAtLocal = (\<lambda>t. - 25200000)\<rparr>" "- 25200000"
      1700000000000 "[]" "''Ann''" sms None]
  by simp

section \<open>Properties of the recall intervals\<close>

lemma intervals_positive: "map_of intervals k = Some i \<Longrightarrow> 0 < i"
  by (auto simp: intervals_def split: if_splits)

lemma intervals_key_nonempty: "map_of intervals [] = None"
  by (simp add: intervals_def)

lemma trim_Nil: "trim [] = []"
  by (simp add: trim_def)

text \<open>
  Claim C7. \<open>scheduleRecall\<close> returns for every string: every error thrown in its
  \<^verbatim>\<open>try\<close> block ends in the \<^verbatim>\<open>catch\<close> block. When the lower-cased and trimmed procedure
  is a key of the interval table the result is the interval of the table, and it is
  the default of 6 months in every other case.
\<close>

theorem scheduleRecall_interval_or_default:
  "snd (scheduleRecall now st proc) =
     (case map_of intervals (trim (toLowerCase proc)) of Some i \<Rightarrow> i | None \<Rightarrow> 6)"
proof (cases "map_of intervals (trim (toLowerCase proc))")
  case None
  then show ?thesis
    by (simp add: scheduleRecall_def scheduleRecall_try_def initialize_def get_property_def
        Let_def split: prod.splits sum.splits property.splits)
next
  case (Some i)
  then have pos: "0 < i" by (rule intervals_positive)
  from Some have ne: "trim (toLowerCase proc) \<noteq> []" "proc \<noteq> []"
    using intervals_key_nonempty by (auto simp: toLowerCase_def trim_Nil)
  from Some pos ne show ?thesis
    by (simp add: scheduleRecall_def scheduleRecall_try_def initialize_def get_property_def
        Let_def split: prod.splits)
qed

section \<open>Properties of the voice session error handler\<close>

text \<open>
  What the body of the handler does with the \<^verbatim>\<open>isCallActive\<close> it sees: a reconnection is
  scheduled for a retryable error while the counter is below \<open>maxReconnectAttempts\<close>
  and the call is seen active, after 2000 ms times the new value of the counter.
\<close>

lemma error_handler_retry:
  "filter (\<lambda>(d, a). a = RetryConnection) (snd (error_handler seenActive st e)) =
     (if seenActive \<and> \<not> meeting_ended e \<and> shouldRetry e
         \<and> reconnectAttempts st < maxReconnectAttempts
      then [(2000 * (reconnectAttempts st + 1), RetryConnection)] else [])"
  by (simp add: error_handler_def Let_def)

text \<open>The registered handler sees no active call, and schedules no reconnection at all.\<close>

lemma on_error_no_retry:
  "filter (\<lambda>(d, a). a = RetryConnection) (snd (on_error st e)) = []"
  by (simp add: on_error_def first_render_def error_handler_retry)

text \<open>
  Claim C8 at a retryable error during a call. After \<^verbatim>\<open>call-start\<close> the call is active
  and the counter is 0; on the error \<^verbatim>\<open>daily-call-join-error\<close> the claim has the first
  reconnection scheduled after 2000 ms. The registered handler reports the error and
  sets no timer, and the counter stays 0; the same body with the present value of
  \<^verbatim>\<open>isCallActive\<close> would set the timer of 2000 ms and count the attempt.
\<close>

theorem on_error_during_call_no_reconnection:
  "on_error (on_call_start first_render)
      \<lparr>errorMsg = None, error_type = None, error_msg = None,
       err_type = Some ''daily-call-join-error'', message = None, to_string = None\<rparr>
    = (\<lparr>reconnectAttempts = 0, callStatus = error,
        errorText = Some ''Failed to join voice session. Please try again.'',
        isLoading = False, connectionHealth = failed, isCallActive = True\<rparr>, [])
   \<and> error_handler (isCallActive (on_call_start first_render)) (on_call_start first_render)
      \<lparr>errorMsg = None, error_type = None, error_msg = None,
       err_type = Some ''daily-call-join-error'', message = None, to_string = None\<rparr>
    = (\<lparr>reconnectAttempts = 1, callStatus = error,
        errorText = Some ''Failed to join voice session. Please try again.'',
        isLoading = False, connectionHealth = failed, isCallActive = True\<rparr>,
       [(2000, RetryConnection)])"
  by (simp add: on_error_def error_handler_def on_call_start_def first_render_def
      meeting_ended_def shouldRetry_def errorMessage_def maxReconnectAttempts_def Let_def)

end
